theory Spec2Isabelle
  imports Main
begin

section \<open>Python values shared by both scripts\<close>

text \<open>
  A Python \<^verbatim>\<open>str\<close> is a sequence of Unicode code points: \<^verbatim>\<open>len\<close> counts code points
  and a slice cuts between them.  A code point is a natural number here; nothing below
  depends on the upper bound \<open>0x10FFFF\<close>.  \<open>py\<close> reads an ASCII literal of the source.
\<close>

type_synonym codepoint = nat
type_synonym pystr = "codepoint list"
type_synonym path = string

definition py :: "string \<Rightarrow> pystr" where
  "py s = map of_char s"

definition NL :: codepoint where
  "NL = 10"

text \<open>An exception object: the name of its class and \<^verbatim>\<open>str(e)\<close>.\<close>

datatype exn = Exn (exn_class: string) (exn_str: pystr)

text \<open>\<^verbatim>\<open>None + "\n"\<close>: the \<^verbatim>\<open>TypeError\<close> Python raises for it.\<close>

definition TypeError_None_plus_str :: exn where
  "TypeError_None_plus_str =
     Exn ''TypeError''
       (py ''unsupported operand type(s) for +: 'NoneType' and 'str'' @ [of_char (CHR 0x27)])"

text \<open>\<^verbatim>\<open>str(n)\<close> for a non-negative integer, as an f-string renders \<^verbatim>\<open>{len(content)}\<close>.\<close>

fun str_nat :: "nat \<Rightarrow> pystr" where
  "str_nat n = (if n < 10 then [48 + n] else str_nat (n div 10) @ [48 + n mod 10])"

declare str_nat.simps [simp del]


section \<open>\<^verbatim>\<open>read_pdf.py\<close>: the two extraction strategies\<close>

text \<open>
  The two PDF libraries are outside the repository.  What the script observes of them is,
  for a path, either an exception while the document is opened, or the document's pages in
  order, and for each page what \<^verbatim>\<open>page.extract_text()\<close> does: raise, or return a
  string or \<^verbatim>\<open>None\<close>.  An exception raised while the page sequence is iterated leaves
  the function at the same point as one raised by \<^verbatim>\<open>extract_text\<close> of that page and is
  the same \<open>Raises\<close>.

  Writing the output file can fail too: \<open>open_w_error\<close> is the exception of
  \<^verbatim>\<open>open(p, "w", encoding=...)\<close>, if any (the file is then untouched), and
  \<open>encode_error\<close> the exception of \<^verbatim>\<open>f.write(content)\<close> when the codec rejects the text
  (the file has been truncated by \<^verbatim>\<open>open\<close> already and stays empty).
\<close>

datatype page = Raises exn | Returns "pystr option"

record env =
  pdfplumber_open :: "path \<Rightarrow> exn + page list"
  PdfReader :: "path \<Rightarrow> exn + page list"
  open_w_error :: "path \<Rightarrow> exn option"
  encode_error :: "string \<Rightarrow> pystr \<Rightarrow> exn option"

text \<open>
  \<^verbatim>\<open>
  def read_pdf_with_pypdf2(file_path):
      text = ""
      with open(file_path, 'rb') as file:
          pdf_reader = PyPDF2.PdfReader(file)
          for page in pdf_reader.pages:
              text += page.extract_text() + "\n"
      return text
  \<close>
  The loop, with the accumulator \<open>text\<close> as an argument.
\<close>

fun pypdf2_pages :: "pystr \<Rightarrow> page list \<Rightarrow> exn + pystr" where
  "pypdf2_pages text [] = Inr text"
| "pypdf2_pages text (Raises e # pages) = Inl e"
| "pypdf2_pages text (Returns None # pages) = Inl TypeError_None_plus_str"
| "pypdf2_pages text (Returns (Some t) # pages) = pypdf2_pages (text @ (t @ [NL])) pages"

definition read_pdf_with_pypdf2 :: "env \<Rightarrow> path \<Rightarrow> exn + pystr" where
  "read_pdf_with_pypdf2 E file_path =
     (case PdfReader E file_path of
        Inl e \<Rightarrow> Inl e
      | Inr pages \<Rightarrow> pypdf2_pages [] pages)"

text \<open>
  \<^verbatim>\<open>
  def read_pdf_with_pdfplumber(file_path):
      text = ""
      with pdfplumber.open(file_path) as pdf:
          for page in pdf.pages:
              page_text = page.extract_text()
              if page_text:
                  text += page_text + "\n"
      return text
  \<close>
  \<^verbatim>\<open>if page_text:\<close> is Python's truth test: \<^verbatim>\<open>None\<close> and the empty string are false.
\<close>

fun truthy :: "pystr option \<Rightarrow> bool" where
  "truthy None = False"
| "truthy (Some t) = (t \<noteq> [])"

fun pdfplumber_pages :: "pystr \<Rightarrow> page list \<Rightarrow> exn + pystr" where
  "pdfplumber_pages text [] = Inr text"
| "pdfplumber_pages text (Raises e # pages) = Inl e"
| "pdfplumber_pages text (Returns page_text # pages) =
     (if truthy page_text
      then (case page_text of
              Some t \<Rightarrow> pdfplumber_pages (text @ (t @ [NL])) pages
            | None \<Rightarrow> Inl TypeError_None_plus_str)
      else pdfplumber_pages text pages)"

definition read_pdf_with_pdfplumber :: "env \<Rightarrow> path \<Rightarrow> exn + pystr" where
  "read_pdf_with_pdfplumber E file_path =
     (case pdfplumber_open E file_path of
        Inl e \<Rightarrow> Inl e
      | Inr pages \<Rightarrow> pdfplumber_pages [] pages)"


section \<open>\<^verbatim>\<open>read_pdf.py\<close>: the script\<close>

text \<open>
  The script's effects: what it prints, which strategy it calls, and the text files it
  leaves.  A text file is its codec and the text written through it.  The run's trace
  keeps prints and strategy calls in the order they happen.
\<close>

record text_file =
  encoding :: string
  contents :: pystr

datatype strategy = Pdfplumber | PyPDF2

datatype event = Print pystr | Call strategy path

record world =
  events :: "event list"
  fs :: "path \<rightharpoonup> text_file"

definition print :: "pystr \<Rightarrow> world \<Rightarrow> world" where
  "print s w = w\<lparr>events := events w @ [Print s]\<rparr>"

definition call :: "strategy \<Rightarrow> path \<Rightarrow> world \<Rightarrow> world" where
  "call s p w = w\<lparr>events := events w @ [Call s p]\<rparr>"

definition pdf_path :: path where
  "pdf_path = ''2507.18074v1.pdf''"

definition out_path :: path where
  "out_path = ''asi_arch_paper.txt''"

text \<open>
  \<^verbatim>\<open>
  with open("asi_arch_paper.txt", "w", encoding="utf-8") as f:
      f.write(content)
  \<close>
  Mode \<^verbatim>\<open>"w"\<close> truncates when it opens; the write then starts at position 0.  The result
  is the exception that leaves the block, if any, and the world at that moment.
\<close>

definition write_utf8 :: "env \<Rightarrow> path \<Rightarrow> pystr \<Rightarrow> world \<Rightarrow> exn option \<times> world" where
  "write_utf8 E p content w =
     (case open_w_error E p of
        Some e \<Rightarrow> (Some e, w)
      | None \<Rightarrow>
          let w1 = w\<lparr>fs := (fs w)(p \<mapsto> \<lparr>encoding = ''utf-8'', contents = []\<rparr>)\<rparr> in
          (case encode_error E ''utf-8'' content of
             Some e \<Rightarrow> (Some e, w1)
           | None \<Rightarrow>
               (None, w1\<lparr>fs := (fs w1)(p \<mapsto> \<lparr>encoding = ''utf-8'', contents = [] @ content\<rparr>)\<rparr>)))"

text \<open>
  How a run ends: a strategy's text was saved (\<open>content\<close> at the end of the run), or both
  \<^verbatim>\<open>try\<close> blocks were left by an exception (\<^verbatim>\<open>e\<close>, then \<^verbatim>\<open>e2\<close>).
\<close>

datatype outcome = Saved strategy pystr | Both_failed exn exn

text \<open>
  Lines 27--38, the body of the outer \<^verbatim>\<open>try\<close>:
  \<^verbatim>\<open>
  content = read_pdf_with_pdfplumber(pdf_path)
  print(f"Successfully extracted {len(content)} characters")
  with open("asi_arch_paper.txt", "w", encoding="utf-8") as f:
      f.write(content)
  print("Content saved to asi_arch_paper.txt")
  print("\n--- PREVIEW (first 2000 chars) ---")
  print(content[:2000])
  \<close>
  The result is \<open>Inl e\<close> when the block is left by the exception \<open>e\<close>, \<open>Inr content\<close> when
  it runs to its end.
\<close>

definition primary_try :: "env \<Rightarrow> world \<Rightarrow> (exn + pystr) \<times> world" where
  "primary_try E w =
     (let w = call Pdfplumber pdf_path w in
      case read_pdf_with_pdfplumber E pdf_path of
        Inl e \<Rightarrow> (Inl e, w)
      | Inr content \<Rightarrow>
          let w = print (py ''Successfully extracted '' @ str_nat (length content)
                           @ py '' characters'') w in
          (case write_utf8 E out_path content w of
             (Some e, w) \<Rightarrow> (Inl e, w)
           | (None, w) \<Rightarrow>
               let w = print (py ''Content saved to asi_arch_paper.txt'') w;
                   w = print (NL # py ''--- PREVIEW (first 2000 chars) ---'') w;
                   w = print (take 2000 content) w
               in (Inr content, w)))"

text \<open>
  Lines 44--47, the body of the inner \<^verbatim>\<open>try\<close>:
  \<^verbatim>\<open>
  content = read_pdf_with_pypdf2(pdf_path)
  print(f"Successfully extracted {len(content)} characters with PyPDF2")
  with open("asi_arch_paper.txt", "w", encoding="utf-8") as f:
      f.write(content)
  \<close>
\<close>

definition fallback_try :: "env \<Rightarrow> world \<Rightarrow> (exn + pystr) \<times> world" where
  "fallback_try E w =
     (let w = call PyPDF2 pdf_path w in
      case read_pdf_with_pypdf2 E pdf_path of
        Inl e2 \<Rightarrow> (Inl e2, w)
      | Inr content \<Rightarrow>
          let w = print (py ''Successfully extracted '' @ str_nat (length content)
                           @ py '' characters with PyPDF2'') w in
          (case write_utf8 E out_path content w of
             (Some e2, w) \<Rightarrow> (Inl e2, w)
           | (None, w) \<Rightarrow> (Inr content, w)))"

text \<open>
  The script (lines 23--49), run on the files \<open>fs0\<close> with an empty trace.  Every exception
  of the model is an \<^verbatim>\<open>Exception\<close>, so both \<^verbatim>\<open>except Exception\<close> clauses catch it.
\<close>

definition main :: "env \<Rightarrow> (path \<rightharpoonup> text_file) \<Rightarrow> outcome \<times> world" where
  "main E fs0 =
     (let w = print (py ''Reading PDF with pdfplumber...'') \<lparr>events = [], fs = fs0\<rparr> in
      case primary_try E w of
        (Inr content, w) \<Rightarrow> (Saved Pdfplumber content, w)
      | (Inl e, w) \<Rightarrow>
          let w = print (py ''Error with pdfplumber: '' @ exn_str e) w;
              w = print (py ''Trying PyPDF2...'') w
          in (case fallback_try E w of
                (Inr content, w) \<Rightarrow> (Saved PyPDF2 content, w)
              | (Inl e2, w) \<Rightarrow>
                  (Both_failed e e2, print (py ''Error with PyPDF2: '' @ exn_str e2) w)))"

text \<open>What the run printed, one entry for each \<^verbatim>\<open>print\<close>.\<close>

fun stdout :: "event list \<Rightarrow> pystr list" where
  "stdout [] = []"
| "stdout (Print s # evs) = s # stdout evs"
| "stdout (Call s p # evs) = stdout evs"


section \<open>\<^verbatim>\<open>serve.py\<close>: the request handler\<close>

text \<open>
  \<^verbatim>\<open>MyHTTPRequestHandler\<close> overrides \<^verbatim>\<open>end_headers\<close> of the standard library's
  \<^verbatim>\<open>http.server.SimpleHTTPRequestHandler\<close>.  The inherited methods it calls are modelled
  after \<^verbatim>\<open>Lib/http/server.py\<close> (CPython 3.11).  What goes over the connection is bytes, so
  header lines are \<open>string\<close>s (one \<open>char\<close> for each byte).  The handler object is the four
  attributes these methods read and write; \<^verbatim>\<open>_headers_buffer\<close> is created empty on first
  use, so an absent buffer and an empty one are the same.
\<close>

definition CRLF :: string where
  "CRLF = [CHR 0x0D, CHR 0x0A]"

text \<open>\<^verbatim>\<open>str.lower()\<close> on the ASCII letters.\<close>

definition lower :: "string \<Rightarrow> string" where
  "lower s = map (\<lambda>c. let n = (of_char c :: nat) in
                        if 65 \<le> n \<and> n \<le> 90 then char_of (n + 32) else c) s"

record handler =
  request_version :: string
  headers_buffer :: "string list"
  wfile :: string
  close_connection :: bool

text \<open>
  \<^verbatim>\<open>
  def send_response_only(self, code, message=None):
      if self.request_version != 'HTTP/0.9':
          ...
          self._headers_buffer.append(("%s %d %s\r\n" %
                  (self.protocol_version, code, message)).encode('latin-1', 'strict'))

  def send_header(self, keyword, value):
      if self.request_version != 'HTTP/0.9':
          ...
          self._headers_buffer.append(
              ("%s: %s\r\n" % (keyword, value)).encode('latin-1', 'strict'))
      if keyword.lower() == 'connection':
          if value.lower() == 'close':
              self.close_connection = True
          elif value.lower() == 'keep-alive':
              self.close_connection = False

  def end_headers(self):
      if self.request_version != 'HTTP/0.9':
          self._headers_buffer.append(b"\r\n")
          self.flush_headers()

  def flush_headers(self):
      if hasattr(self, '_headers_buffer'):
          self.wfile.write(b"".join(self._headers_buffer))
          self._headers_buffer = []
  \<close>
\<close>

definition send_response_only :: "string \<Rightarrow> nat \<Rightarrow> string \<Rightarrow> handler \<Rightarrow> handler" where
  "send_response_only protocol_version code message h =
     (if request_version h \<noteq> ''HTTP/0.9''
      then h\<lparr>headers_buffer := headers_buffer h @
               [protocol_version @ '' '' @ map char_of (str_nat code) @ '' '' @ message @ CRLF]\<rparr>
      else h)"

definition send_header :: "string \<Rightarrow> string \<Rightarrow> handler \<Rightarrow> handler" where
  "send_header keyword val h =
     (let h = (if request_version h \<noteq> ''HTTP/0.9''
               then h\<lparr>headers_buffer := headers_buffer h @ [keyword @ '': '' @ val @ CRLF]\<rparr>
               else h)
      in if lower keyword = ''connection''
         then (if lower val = ''close'' then h\<lparr>close_connection := True\<rparr>
               else if lower val = ''keep-alive'' then h\<lparr>close_connection := False\<rparr>
               else h)
         else h)"

definition flush_headers :: "handler \<Rightarrow> handler" where
  "flush_headers h = h\<lparr>wfile := wfile h @ concat (headers_buffer h), headers_buffer := []\<rparr>"

definition base_end_headers :: "handler \<Rightarrow> handler" where
  "base_end_headers h =
     (if request_version h \<noteq> ''HTTP/0.9''
      then flush_headers (h\<lparr>headers_buffer := headers_buffer h @ [CRLF]\<rparr>)
      else h)"

text \<open>
  The override (lines 19--24 of \<^verbatim>\<open>serve.py\<close>):
  \<^verbatim>\<open>
  def end_headers(self):
      self.send_header('Access-Control-Allow-Origin', '*')
      self.send_header('Access-Control-Allow-Methods', 'GET, POST, OPTIONS')
      self.send_header('Access-Control-Allow-Headers', '*')
      super().end_headers()
  \<close>
\<close>

definition end_headers :: "handler \<Rightarrow> handler" where
  "end_headers h =
     (let h = send_header ''Access-Control-Allow-Origin'' ''*'' h;
          h = send_header ''Access-Control-Allow-Methods'' ''GET, POST, OPTIONS'' h;
          h = send_header ''Access-Control-Allow-Headers'' ''*'' h
      in base_end_headers h)"

text \<open>
  A response as the library's \<^verbatim>\<open>send_head\<close> and \<^verbatim>\<open>send_error\<close> build it: the status
  line, the headers of that response, \<^verbatim>\<open>self.end_headers()\<close> (the override, by dynamic
  dispatch), then the body written to \<^verbatim>\<open>wfile\<close>.
\<close>

definition respond ::
  "string \<Rightarrow> nat \<Rightarrow> string \<Rightarrow> (string \<times> string) list \<Rightarrow> string \<Rightarrow> handler \<Rightarrow> handler" where
  "respond protocol_version code message hdrs body h =
     (let h = send_response_only protocol_version code message h;
          h = fold (\<lambda>(k, v). send_header k v) hdrs h;
          h = end_headers h
      in h\<lparr>wfile := wfile h @ body\<rparr>)"

section \<open>\<^verbatim>\<open>serve.py\<close>: the server\<close>

text \<open>
  \<^verbatim>\<open>start_server\<close> builds a \<^verbatim>\<open>socketserver.TCPServer\<close>, whose methods are modelled after
  \<^verbatim>\<open>Lib/socketserver.py\<close> (CPython 3.11).  The listening socket is what the server did
  to it: the options set, the address given to \<^verbatim>\<open>bind\<close>, the backlog of \<^verbatim>\<open>listen\<close>, whether
  it is closed.  The operating system answers two questions: whether \<^verbatim>\<open>bind\<close> fails, which
  may depend on the options set before, and what \<^verbatim>\<open>getsockname\<close> reports for a socket
  bound to an address (for the wildcard host \<^verbatim>\<open>""\<close>, the address \<^verbatim>\<open>0.0.0.0\<close>).
\<close>

definition PORT :: nat where
  "PORT = 8000"

type_synonym address = "string \<times> nat"

datatype sockopt = SO_REUSEADDR | SO_REUSEPORT

record socket =
  sockopts :: "sockopt list"
  bound_to :: "address option"
  backlog :: "nat option"
  closed :: bool

datatype handler_class = MyHTTPRequestHandler

type_synonym request = string

text \<open>
  The server object: the attributes \<^verbatim>\<open>TCPServer\<close> and \<^verbatim>\<open>BaseServer\<close> give it
  (\<open>shutdown_request_flag\<close> is \<^verbatim>\<open>__shutdown_request\<close>, \<open>is_shut_down\<close> whether the event
  \<^verbatim>\<open>__is_shut_down\<close> is set), and what it has sent so far: for each connection handled,
  the request, the bytes written in answer, and whether the handler ran to its end.
\<close>

record tcp_server =
  server_address :: address
  RequestHandlerClass :: handler_class
  allow_reuse_address :: bool
  allow_reuse_port :: bool
  request_queue_size :: nat
  sock :: socket
  shutdown_request_flag :: bool
  is_shut_down :: bool
  served :: "(request \<times> string \<times> bool) list"

record os =
  bind_error :: "sockopt list \<Rightarrow> address \<Rightarrow> exn option"
  getsockname :: "address \<Rightarrow> address"

text \<open>
  \<^verbatim>\<open>
  def server_bind(self):
      if self.allow_reuse_address and hasattr(socket, "SO_REUSEADDR"):
          self.socket.setsockopt(socket.SOL_SOCKET, socket.SO_REUSEADDR, 1)
      if self.allow_reuse_port and hasattr(socket, "SO_REUSEPORT"):
          self.socket.setsockopt(socket.SOL_SOCKET, socket.SO_REUSEPORT, 1)
      self.socket.bind(self.server_address)
      self.server_address = self.socket.getsockname()

  def server_activate(self):
      self.socket.listen(self.request_queue_size)

  def server_close(self):
      self.socket.close()
  \<close>
\<close>

definition server_bind :: "os \<Rightarrow> tcp_server \<Rightarrow> exn + tcp_server" where
  "server_bind os s =
     (let s = (if allow_reuse_address s
               then s\<lparr>sock := (sock s)\<lparr>sockopts := sockopts (sock s) @ [SO_REUSEADDR]\<rparr>\<rparr>
               else s);
          s = (if allow_reuse_port s
               then s\<lparr>sock := (sock s)\<lparr>sockopts := sockopts (sock s) @ [SO_REUSEPORT]\<rparr>\<rparr>
               else s)
      in case bind_error os (sockopts (sock s)) (server_address s) of
           Some e \<Rightarrow> Inl e
         | None \<Rightarrow>
             let s = s\<lparr>sock := (sock s)\<lparr>bound_to := Some (server_address s)\<rparr>\<rparr>
             in Inr (s\<lparr>server_address := getsockname os (server_address s)\<rparr>))"

definition server_activate :: "tcp_server \<Rightarrow> tcp_server" where
  "server_activate s = s\<lparr>sock := (sock s)\<lparr>backlog := Some (request_queue_size s)\<rparr>\<rparr>"

definition server_close :: "tcp_server \<Rightarrow> tcp_server" where
  "server_close s = s\<lparr>sock := (sock s)\<lparr>closed := True\<rparr>\<rparr>"

text \<open>
  The constructor, with the class attributes of \<^verbatim>\<open>TCPServer\<close>, which \<^verbatim>\<open>serve.py\<close> neither
  overrides nor sets:
  \<^verbatim>\<open>
  request_queue_size = 5
  allow_reuse_address = False
  allow_reuse_port = False

  def __init__(self, server_address, RequestHandlerClass, bind_and_activate=True):
      BaseServer.__init__(self, server_address, RequestHandlerClass)
      self.socket = socket.socket(self.address_family, self.socket_type)
      if bind_and_activate:
          try:
              self.server_bind()
              self.server_activate()
          except:
              self.server_close()
              raise
  \<close>
  When \<^verbatim>\<open>bind\<close> raises, the socket is closed and no server object exists.
\<close>

definition TCPServer :: "os \<Rightarrow> address \<Rightarrow> handler_class \<Rightarrow> exn + tcp_server" where
  "TCPServer os addr cls =
     (let s = \<lparr>server_address = addr, RequestHandlerClass = cls,
               allow_reuse_address = False, allow_reuse_port = False,
               request_queue_size = 5,
               sock = \<lparr>sockopts = [], bound_to = None, backlog = None, closed = False\<rparr>,
               shutdown_request_flag = False, is_shut_down = False, served = []\<rparr>
      in case server_bind os s of
           Inl e \<Rightarrow> Inl e
         | Inr s \<Rightarrow> Inr (server_activate s))"

text \<open>
  The process: its working directory and what its main thread printed on standard output.  Line 16 of
  \<^verbatim>\<open>serve.py\<close>, \<^verbatim>\<open>os.chdir(os.path.dirname(os.path.abspath(__file__)))\<close>, runs when the
  module is loaded; \<open>script_dir\<close> is the directory of the script.  The handler class is
  given no \<^verbatim>\<open>directory\<close>, so each handler serves the files under \<^verbatim>\<open>os.getcwd()\<close>.  (The
  \<^verbatim>\<open>__main__\<close> block also starts a thread that opens a browser and prints one line of its
  own; it shares nothing with the server but the constant \<^verbatim>\<open>PORT\<close> and is left out.)
\<close>

record process =
  cwd :: path
  console :: "pystr list"


definition say :: "pystr \<Rightarrow> process \<Rightarrow> process" where
  "say s p = p\<lparr>console := console p @ [s]\<rparr>"

text \<open>
  The override of the handler's logging (lines 26--28 of \<^verbatim>\<open>serve.py\<close>):
  \<^verbatim>\<open>
  def log_message(self, format, *args):
      print(f"<U+1F310> {self.address_string()} - {format % args}")
  \<close>
  \<open>client\<close> is \<^verbatim>\<open>self.address_string()\<close>, the client's host, and \<open>msg\<close> is
  \<^verbatim>\<open>format % args\<close>, the message the library has made.
\<close>

definition log_message :: "pystr \<Rightarrow> pystr \<Rightarrow> process \<Rightarrow> process" where
  "log_message client msg p = say (0x1F310 # py '' '' @ client @ py '' - '' @ msg) p"

text \<open>
  What a handler does for a request, in order: it writes a byte to the connection, or it
  calls \<^verbatim>\<open>self.log_message\<close> (the library does so from \<^verbatim>\<open>send_response\<close> and
  \<^verbatim>\<open>send_error\<close>).  \<open>handle\<close> runs such a sequence for the client \<open>client\<close>: the bytes sent
  so far and the process, whose standard output receives the log lines.
\<close>

datatype out = Byte char | Log pystr

fun handle :: "pystr \<Rightarrow> out list \<Rightarrow> string \<times> process \<Rightarrow> string \<times> process" where
  "handle client [] (sent, p) = (sent, p)"
| "handle client (Byte c # outs) (sent, p) = handle client outs (sent @ [c], p)"
| "handle client (Log msg # outs) (sent, p) = handle client outs (sent, log_message client msg p)"

text \<open>
  What happens to the main thread while it is in the loop of \<^verbatim>\<open>serve_forever\<close>, in order:
  the poll times out; a connection of a client is ready and its request is handled to the
  end; the interrupt signal arrives while the thread waits in the loop (\<open>Sigint\<close>); or it
  arrives while the handler of a request is running, after the first \<open>n\<close> steps of that
  handler (\<open>Sigint_in\<close>).  The server handles requests in the thread that runs the loop,
  and Python raises \<^verbatim>\<open>KeyboardInterrupt\<close> in that thread wherever it is.

  \<^verbatim>\<open>
  def serve_forever(self, poll_interval=0.5):
      self.__is_shut_down.clear()
      try:
          with _ServerSelector() as selector:
              selector.register(self, selectors.EVENT_READ)
              while not self.__shutdown_request:
                  ready = selector.select(poll_interval)
                  if self.__shutdown_request:
                      break
                  if ready:
                      self._handle_request_noblock()
                  self.service_actions()
      finally:
          self.__shutdown_request = False
          self.__is_shut_down.set()

  def _handle_request_noblock(self):
      ...
          try:
              self.process_request(request, client_address)
          except Exception:
              self.handle_error(request, client_address)
              self.shutdown_request(request)
          except:
              self.shutdown_request(request)
              raise

  def shutdown(self):
      self.__shutdown_request = True
      self.__is_shut_down.wait()
  \<close>
  \<open>H d r\<close> is what \<^verbatim>\<open>MyHTTPRequestHandler\<close> does for the request \<open>r\<close> when the working
  directory is \<open>d\<close>.  With no input left the loop is still waiting (\<open>Still_serving\<close>): it
  never returns by itself.
\<close>

datatype input =
    Poll_timeout
  | Connection pystr request
  | Sigint
  | Sigint_in pystr request nat

datatype loop_exit = Still_serving | Loop_done | Interrupted

fun serve_loop ::
  "(path \<Rightarrow> request \<Rightarrow> out list) \<Rightarrow> tcp_server \<times> process \<Rightarrow> input list
     \<Rightarrow> loop_exit \<times> tcp_server \<times> process" where
  "serve_loop H (s, p) [] =
     (if shutdown_request_flag s then (Loop_done, s, p) else (Still_serving, s, p))"
| "serve_loop H (s, p) (i # inputs) =
     (if shutdown_request_flag s then (Loop_done, s, p)
      else case i of
        Poll_timeout \<Rightarrow> serve_loop H (s, p) inputs
      | Connection client r \<Rightarrow>
          serve_loop H
            (s\<lparr>served := served s @ [(r, fst (handle client (H (cwd p) r) ([], p)), True)]\<rparr>,
             snd (handle client (H (cwd p) r) ([], p)))
            inputs
      | Sigint \<Rightarrow> (Interrupted, s, p)
      | Sigint_in client r n \<Rightarrow>
          (Interrupted,
           s\<lparr>served := served s
                 @ [(r, fst (handle client (take n (H (cwd p) r)) ([], p)), False)]\<rparr>,
           snd (handle client (take n (H (cwd p) r)) ([], p))))"

text \<open>
  Where the interrupt finds \<^verbatim>\<open>serve_forever\<close>: before its \<^verbatim>\<open>try\<close> statement is entered
  (\<open>Before_try\<close>: the event has been cleared and the \<^verbatim>\<open>finally\<close> clause does not run), or
  not before the loop, whose inputs are given (\<open>In_try\<close>).
\<close>

datatype timing = Before_try | In_try "input list"

definition serve_forever ::
  "(path \<Rightarrow> request \<Rightarrow> out list) \<Rightarrow> tcp_server \<times> process \<Rightarrow> timing
     \<Rightarrow> loop_exit \<times> tcp_server \<times> process" where
  "serve_forever H sp t =
     (let s = (fst sp)\<lparr>is_shut_down := False\<rparr>; p = snd sp in
      case t of
        Before_try \<Rightarrow> (Interrupted, s, p)
      | In_try inputs \<Rightarrow>
          (case serve_loop H (s, p) inputs of
             (Still_serving, s, p) \<Rightarrow> (Still_serving, s, p)
           | (x, s, p) \<Rightarrow> (x, s\<lparr>shutdown_request_flag := False, is_shut_down := True\<rparr>, p)))"

text \<open>
  \<^verbatim>\<open>shutdown\<close> waits for the event; when the event is not set, no other thread will set it
  and the call never returns (\<open>None\<close>).
\<close>

definition shutdown :: "tcp_server \<Rightarrow> tcp_server option" where
  "shutdown s =
     (let s = s\<lparr>shutdown_request_flag := True\<rparr>
      in if is_shut_down s then Some s else None)"

text \<open>
  \<^verbatim>\<open>
  def start_server():
      with socketserver.TCPServer(("", PORT), MyHTTPRequestHandler) as httpd:
          print(f"<U+1F680> AlphaTanks Development Server")
          print(f"<U+1F4E1> Serving at http://localhost:{PORT}")
          print(f"<U+1F3AE> Open http://localhost:{PORT} in your browser")
          print(f"<U+23F9><U+FE0F>  Press Ctrl+C to stop the server")
          print("-" * 50)
          try:
              httpd.serve_forever()
          except KeyboardInterrupt:
              print("\n<U+1F6D1> Server stopped")
              httpd.shutdown()
  \<close>
  Where the interrupt finds \<^verbatim>\<open>start_server\<close>, once the server object exists: in the
  \<^verbatim>\<open>with\<close> block before the \<^verbatim>\<open>try\<close> statement, after \<open>n\<close> of the five lines are printed
  (\<open>In_banner\<close>), where nothing catches it; or in the \<^verbatim>\<open>try\<close> statement, that is in
  \<^verbatim>\<open>serve_forever\<close>.  A run without interrupt is \<open>In_serve_forever (In_try inputs)\<close> with
  inputs that hold none.

  The call returns, raises (the exception of the constructor or the interrupt, when
  nothing catches them), or never comes back (\<open>Blocked\<close>).  Leaving the \<^verbatim>\<open>with\<close> block, by
  its end or by an exception, calls \<^verbatim>\<open>server_close\<close>.
\<close>

datatype arrival = In_banner nat | In_serve_forever timing

datatype status = Returned | Raised exn | Blocked

definition KeyboardInterrupt :: exn where
  "KeyboardInterrupt = Exn ''KeyboardInterrupt'' []"

definition banner :: "pystr list" where
  "banner =
     [0x1F680 # py '' AlphaTanks Development Server'',
      0x1F4E1 # py '' Serving at http://localhost:'' @ str_nat PORT,
      0x1F3AE # py '' Open http://localhost:'' @ str_nat PORT @ py '' in your browser'',
      [0x23F9, 0xFE0F] @ py ''  Press Ctrl+C to stop the server'',
      concat (replicate 50 (py ''-''))]"

definition start_server ::
  "os \<Rightarrow> (path \<Rightarrow> request \<Rightarrow> out list) \<Rightarrow> arrival \<Rightarrow> process
     \<Rightarrow> status \<times> process \<times> tcp_server option" where
  "start_server os H a p =
     (case TCPServer os ('''', PORT) MyHTTPRequestHandler of
        Inl e \<Rightarrow> (Raised e, p, None)
      | Inr httpd \<Rightarrow>
          (case a of
             In_banner n \<Rightarrow>
               (Raised KeyboardInterrupt, fold say (take n banner) p, Some (server_close httpd))
           | In_serve_forever t \<Rightarrow>
               let p = fold say banner p
               in (case serve_forever H (httpd, p) t of
                     (Still_serving, httpd, p) \<Rightarrow> (Blocked, p, Some httpd)
                   | (Loop_done, httpd, p) \<Rightarrow> (Returned, p, Some (server_close httpd))
                   | (Interrupted, httpd, p) \<Rightarrow>
                       let p = say (NL # 0x1F6D1 # py '' Server stopped'') p
                       in (case shutdown httpd of
                             None \<Rightarrow> (Blocked, p, Some httpd)
                           | Some httpd \<Rightarrow> (Returned, p, Some (server_close httpd))))))"


section \<open>Vocabulary of the properties\<close>

text \<open>The texts of the pages that pass the truth test, in page order.\<close>

fun kept_texts :: "page list \<Rightarrow> pystr list" where
  "kept_texts [] = []"
| "kept_texts (Returns (Some t) # pages) = (if t \<noteq> [] then t # kept_texts pages else kept_texts pages)"
| "kept_texts (p # pages) = kept_texts pages"

text \<open>
  The newline-terminated segments of a text, in order: each ends at a newline, which is
  not part of it; what follows the last newline is no segment.  \<open>cur\<close> is the segment
  being read.
\<close>

fun nl_segments :: "pystr \<Rightarrow> pystr \<Rightarrow> pystr list" where
  "nl_segments cur [] = []"
| "nl_segments cur (c # cs) =
     (if c = NL then cur # nl_segments [] cs else nl_segments (cur @ [c]) cs)"

definition segments :: "pystr \<Rightarrow> pystr list" where
  "segments s = nl_segments [] s"

text \<open>
  An environment for examples: the same document at every path, as pdfplumber and as
  PyPDF2 see it, and an output file that can always be written.
\<close>

definition env_of :: "exn + page list \<Rightarrow> exn + page list \<Rightarrow> env" where
  "env_of plumber pypdf2 =
     \<lparr>pdfplumber_open = (\<lambda>p. plumber), PdfReader = (\<lambda>p. pypdf2),
      open_w_error = (\<lambda>p. None), encode_error = (\<lambda>c s. None)\<rparr>"

text \<open>A page whose extraction raises.\<close>

fun raises :: "page \<Rightarrow> bool" where
  "raises (Raises e) = True"
| "raises (Returns v) = False"

text \<open>
  How a \<^verbatim>\<open>try\<close> block of the script ends, given what its strategy did: the strategy's
  exception, or the exception of the write, or the text saved.
\<close>

definition saved_or_raised :: "env \<Rightarrow> exn + pystr \<Rightarrow> exn + pystr" where
  "saved_or_raised E r =
     (case r of
        Inl e \<Rightarrow> Inl e
      | Inr c \<Rightarrow>
          (case open_w_error E out_path of
             Some e \<Rightarrow> Inl e
           | None \<Rightarrow> (case encode_error E ''utf-8'' c of Some e \<Rightarrow> Inl e | None \<Rightarrow> Inr c)))"




text \<open>The three header lines the override adds, as they go over the connection.\<close>

definition cors_headers :: string where
  "cors_headers =
     ''Access-Control-Allow-Origin: *'' @ CRLF @
     ''Access-Control-Allow-Methods: GET, POST, OPTIONS'' @ CRLF @
     ''Access-Control-Allow-Headers: *'' @ CRLF"

text \<open>
  Of the steps of a handler: the bytes it sends, and the lines that \<^verbatim>\<open>log_message\<close> prints
  for its log calls.
\<close>

fun sent_bytes :: "out list \<Rightarrow> string" where
  "sent_bytes [] = []"
| "sent_bytes (Byte c # outs) = c # sent_bytes outs"
| "sent_bytes (Log msg # outs) = sent_bytes outs"

fun log_lines :: "pystr \<Rightarrow> out list \<Rightarrow> pystr list" where
  "log_lines client [] = []"
| "log_lines client (Byte c # outs) = log_lines client outs"
| "log_lines client (Log msg # outs) =
     (0x1F310 # py '' '' @ client @ py '' - '' @ msg) # log_lines client outs"







section \<open>The extraction strategies\<close>

lemma pdfplumber_pages_acc:
  "pdfplumber_pages acc pages = Inr r \<Longrightarrow>
   r = acc @ concat (map (\<lambda>t. t @ [NL]) (kept_texts pages))"
proof (induction acc pages rule: pdfplumber_pages.induct)
  case (1 acc)
  then show ?case by simp
next
  case (2 acc e pages)
  then show ?case by simp
next
  case (3 acc page_text pages)
  then show ?case
    by (cases page_text) (auto split: if_splits)
qed

lemma pdfplumber_pages_total:
  "\<not> list_ex raises pages \<Longrightarrow>
   pdfplumber_pages acc pages = Inr (acc @ concat (map (\<lambda>t. t @ [NL]) (kept_texts pages)))"
proof (induction acc pages rule: pdfplumber_pages.induct)
  case (3 acc page_text pages)
  then show ?case by (cases page_text) auto
qed auto

lemma concat_nl_last:
  "concat (map (\<lambda>t. t @ [NL]) ts) = [] \<or> last (concat (map (\<lambda>t. t @ [NL]) ts)) = NL"
  by (induction ts rule: rev_induct) auto

lemma concat_nl_empty: "concat (map (\<lambda>t. t @ [NL]) ts) = [] \<longleftrightarrow> ts = []"
  by (cases ts) auto

text \<open>
  Claim C10.  Whenever \<^verbatim>\<open>read_pdf_with_pdfplumber\<close> returns, the string it returns is the
  concatenation, in page order, of \<open>page_text + "\n"\<close> over exactly the pages whose extracted
  text is non-empty (\<open>kept_texts\<close>).  So the result is the empty string when no page yields
  text, and ends with a newline otherwise.  By \<open>pdfplumber_pages_total\<close> the function
  does return whenever the document opens and no page raises.
\<close>

theorem pdfplumber_text_is_concat:
  assumes "pdfplumber_open E p = Inr pages"
    and "read_pdf_with_pdfplumber E p = Inr r"
  shows "r = concat (map (\<lambda>t. t @ [NL]) (kept_texts pages))
         \<and> (r = [] \<longleftrightarrow> kept_texts pages = [])
         \<and> (r = [] \<or> last r = NL)"
proof -
  from assms have "pdfplumber_pages [] pages = Inr r"
    by (simp add: read_pdf_with_pdfplumber_def)
  then have r: "r = concat (map (\<lambda>t. t @ [NL]) (kept_texts pages))"
    using pdfplumber_pages_acc by fastforce
  show ?thesis
    unfolding r using concat_nl_last [of "kept_texts pages"] concat_nl_empty [of "kept_texts pages"]
    by blast
qed

theorem pdfplumber_text_is_concat_witness:
  "pdfplumber_open
     (env_of (Inr [Returns (Some (py ''a'')), Returns None, Returns (Some []),
                   Returns (Some (py ''b''))]) (Inr [])) pdf_path
     = Inr [Returns (Some (py ''a'')), Returns None, Returns (Some []), Returns (Some (py ''b''))]
   \<and> read_pdf_with_pdfplumber
         (env_of (Inr [Returns (Some (py ''a'')), Returns None, Returns (Some []),
                       Returns (Some (py ''b''))]) (Inr [])) pdf_path
       = Inr (py ''a'' @ [NL] @ py ''b'' @ [NL])
   \<and> py ''a'' @ [NL] @ py ''b'' @ [NL] =
       concat (map (\<lambda>t. t @ [NL])
         (kept_texts [Returns (Some (py ''a'')), Returns None, Returns (Some []),
                      Returns (Some (py ''b''))]))
   \<and> last (py ''a'' @ [NL] @ py ''b'' @ [NL]) = NL"
proof -
  let ?pages = "[Returns (Some (py ''a'')), Returns None, Returns (Some []),
                 Returns (Some (py ''b''))]"
  let ?E = "env_of (Inr ?pages) (Inr [])"
  have a: "pdfplumber_open ?E pdf_path = Inr ?pages"
    by (simp add: env_of_def)
  have b: "read_pdf_with_pdfplumber ?E pdf_path = Inr (py ''a'' @ [NL] @ py ''b'' @ [NL])"
    by (simp add: read_pdf_with_pdfplumber_def env_of_def py_def)
  from pdfplumber_text_is_concat [OF a b] a b show ?thesis
    by (simp add: py_def)
qed

lemma nl_segments_count: "length (nl_segments cur s) = count_list s NL"
  by (induction s arbitrary: cur) auto

lemma nl_segments_line:
  "NL \<notin> set t \<Longrightarrow> nl_segments cur (t @ NL # s) = (cur @ t) # nl_segments [] s"
  by (induction t arbitrary: cur) auto

lemma segments_concat:
  "\<forall>t \<in> set ts. NL \<notin> set t \<Longrightarrow> segments (concat (map (\<lambda>t. t @ [NL]) ts)) = ts"
  unfolding segments_def
  by (induction ts) (auto simp: nl_segments_line)

lemma count_concat_nl:
  "count_list (concat (map (\<lambda>t. t @ [NL]) ts)) NL = length ts + (\<Sum>t\<leftarrow>ts. count_list t NL)"
  by (induction ts) auto

lemma length_kept_texts: "length (kept_texts pages) \<le> length pages"
  by (induction pages rule: kept_texts.induct) auto


text \<open>
  Claim C3 as stated counts one newline-terminated segment for each of the \<open>N\<close> pages, an
  empty one for a page without text.  The loop's guard \<^verbatim>\<open>if page_text:\<close> skips such a
  page instead, and a page text may hold newlines of its own: the two PDFs below, of one
  page each, give no segment and two segments.
\<close>

theorem segments_not_one_per_page:
  "read_pdf_with_pdfplumber (env_of (Inr [Returns None]) (Inr [])) pdf_path = Inr []
   \<and> length (segments []) \<noteq> length [Returns None]
   \<and> read_pdf_with_pdfplumber
         (env_of (Inr [Returns (Some (py ''a'' @ [NL] @ py ''b''))]) (Inr [])) pdf_path
       = Inr (py ''a'' @ [NL] @ py ''b'' @ [NL])
   \<and> length (segments (py ''a'' @ [NL] @ py ''b'' @ [NL]))
       \<noteq> length [Returns (Some (py ''a'' @ [NL] @ py ''b''))]"
  by (simp add: read_pdf_with_pdfplumber_def env_of_def segments_def py_def NL_def)

text \<open>
  Claim C3, as amended.  The returned text has exactly \<open>K + M\<close> newline-terminated
  segments, where
  \<open>K \<le> N\<close> is the number of pages whose extracted text is non-empty and \<open>M\<close> the number of
  newline characters inside those texts; a page without text contributes no segment.  When
  no page text holds a newline, the segments are the non-empty page texts, in page order.
\<close>

theorem segments_of_pdfplumber_text:
  assumes "pdfplumber_open E p = Inr pages"
    and "read_pdf_with_pdfplumber E p = Inr r"
  shows "length (segments r) =
           length (kept_texts pages) + (\<Sum>t\<leftarrow>kept_texts pages. count_list t NL)
       \<and> length (kept_texts pages) \<le> length pages
       \<and> ((\<forall>t \<in> set (kept_texts pages). NL \<notin> set t) \<longrightarrow> segments r = kept_texts pages)"
proof -
  from assms have "pdfplumber_pages [] pages = Inr r"
    by (simp add: read_pdf_with_pdfplumber_def)
  then have r: "r = concat (map (\<lambda>t. t @ [NL]) (kept_texts pages))"
    using pdfplumber_pages_acc by fastforce
  have "length (segments r) =
          length (kept_texts pages) + (\<Sum>t\<leftarrow>kept_texts pages. count_list t NL)"
    unfolding r segments_def by (simp add: nl_segments_count count_concat_nl)
  moreover have "(\<forall>t \<in> set (kept_texts pages). NL \<notin> set t) \<longrightarrow> segments r = kept_texts pages"
    unfolding r by (simp add: segments_concat)
  ultimately show ?thesis
    using length_kept_texts [of pages] by blast
qed

theorem segments_of_pdfplumber_text_witness:
  "pdfplumber_open
     (env_of (Inr [Returns (Some (py ''a'')), Returns None, Returns (Some (py ''b''))]) (Inr []))
     pdf_path
     = Inr [Returns (Some (py ''a'')), Returns None, Returns (Some (py ''b''))]
   \<and> read_pdf_with_pdfplumber
         (env_of (Inr [Returns (Some (py ''a'')), Returns None, Returns (Some (py ''b''))])
            (Inr [])) pdf_path
       = Inr (py ''a'' @ [NL] @ py ''b'' @ [NL])
   \<and> length (segments (py ''a'' @ [NL] @ py ''b'' @ [NL])) = 2
   \<and> segments (py ''a'' @ [NL] @ py ''b'' @ [NL]) = [py ''a'', py ''b'']"
proof -
  let ?pages = "[Returns (Some (py ''a'')), Returns None, Returns (Some (py ''b''))]"
  let ?E = "env_of (Inr ?pages) (Inr [])"
  have a: "pdfplumber_open ?E pdf_path = Inr ?pages"
    by (simp add: env_of_def)
  have b: "read_pdf_with_pdfplumber ?E pdf_path = Inr (py ''a'' @ [NL] @ py ''b'' @ [NL])"
    by (simp add: read_pdf_with_pdfplumber_def env_of_def py_def)
  have c: "\<forall>t \<in> set (kept_texts ?pages). NL \<notin> set t"
    by (simp add: py_def NL_def)
  from segments_of_pdfplumber_text [OF a b] c a b show ?thesis
    by (simp add: py_def)
qed

lemma pypdf2_pages_texts_then_None:
  "pypdf2_pages acc (map (\<lambda>t. Returns (Some t)) ts @ Returns None # rest)
     = Inl TypeError_None_plus_str"
  by (induction ts arbitrary: acc) auto

text \<open>
  Claim C5.  \<^verbatim>\<open>read_pdf_with_pypdf2\<close> has no guard: on a PDF with a page whose
  \<^verbatim>\<open>extract_text()\<close> is \<^verbatim>\<open>None\<close>, the pages before it returning text, the concatenation
  \<^verbatim>\<open>None + "\n"\<close> raises \<^verbatim>\<open>TypeError\<close> and the function returns nothing, whatever follows
  the page.  The instance below is such a PDF; on the same pages the guarded strategy skips the
  page and returns the other texts.
\<close>

theorem pypdf2_none_page_type_error:
  assumes "PdfReader E p = Inr (map (\<lambda>t. Returns (Some t)) ts @ Returns None # rest)"
  shows "read_pdf_with_pypdf2 E p = Inl TypeError_None_plus_str
       \<and> exn_class TypeError_None_plus_str = ''TypeError''"
  using assms
  by (simp add: read_pdf_with_pypdf2_def pypdf2_pages_texts_then_None
                TypeError_None_plus_str_def)

theorem pypdf2_none_page_type_error_witness:
  "PdfReader
     (env_of (Inr [Returns (Some (py ''a'')), Returns None, Returns (Some (py ''b''))])
             (Inr [Returns (Some (py ''a'')), Returns None, Returns (Some (py ''b''))]))
     pdf_path
     = Inr (map (\<lambda>t. Returns (Some t)) [py ''a''] @ Returns None # [Returns (Some (py ''b''))])
   \<and> read_pdf_with_pypdf2
         (env_of (Inr [Returns (Some (py ''a'')), Returns None, Returns (Some (py ''b''))])
                 (Inr [Returns (Some (py ''a'')), Returns None, Returns (Some (py ''b''))]))
         pdf_path
       = Inl (Exn ''TypeError''
               (py ''unsupported operand type(s) for +: 'NoneType' and 'str'' @ [39]))
   \<and> read_pdf_with_pdfplumber
         (env_of (Inr [Returns (Some (py ''a'')), Returns None, Returns (Some (py ''b''))])
                 (Inr [Returns (Some (py ''a'')), Returns None, Returns (Some (py ''b''))]))
         pdf_path
       = Inr (py ''a'' @ [NL] @ py ''b'' @ [NL])"
proof -
  let ?pages = "[Returns (Some (py ''a'')), Returns None, Returns (Some (py ''b''))]"
  let ?E = "env_of (Inr ?pages) (Inr ?pages)"
  have a: "PdfReader ?E pdf_path
             = Inr (map (\<lambda>t. Returns (Some t)) [py ''a''] @ Returns None
                      # [Returns (Some (py ''b''))])"
    by (simp add: env_of_def)
  have b: "read_pdf_with_pdfplumber ?E pdf_path = Inr (py ''a'' @ [NL] @ py ''b'' @ [NL])"
    by (simp add: read_pdf_with_pdfplumber_def env_of_def py_def)
  from pypdf2_none_page_type_error [OF a] a b show ?thesis
    by (simp add: TypeError_None_plus_str_def)
qed


section \<open>The extraction script\<close>

lemma write_utf8_ok:
  "write_utf8 E p c w = (None, w') \<Longrightarrow>
     w' = w\<lparr>fs := (fs w)(p \<mapsto> \<lparr>encoding = ''utf-8'', contents = c\<rparr>)\<rparr>"
  by (auto simp: write_utf8_def Let_def split: option.splits)

lemma write_utf8_events: "events (snd (write_utf8 E p c w)) = events w"
  by (auto simp: write_utf8_def Let_def split: option.splits)

lemma primary_try_Inr:
  assumes "primary_try E w = (Inr c, w')"
  shows "read_pdf_with_pdfplumber E pdf_path = Inr c"
    and "fs w' = (fs w)(out_path \<mapsto> \<lparr>encoding = ''utf-8'', contents = c\<rparr>)"
    and "events w' = events w @
           [Call Pdfplumber pdf_path,
            Print (py ''Successfully extracted '' @ str_nat (length c) @ py '' characters''),
            Print (py ''Content saved to asi_arch_paper.txt''),
            Print (NL # py ''--- PREVIEW (first 2000 chars) ---''),
            Print (take 2000 c)]"
  using assms
  by (auto simp: primary_try_def Let_def print_def call_def
           split: sum.splits prod.splits option.splits dest!: write_utf8_ok)

lemma fallback_try_Inr:
  assumes "fallback_try E w = (Inr c, w')"
  shows "read_pdf_with_pypdf2 E pdf_path = Inr c"
    and "fs w' = (fs w)(out_path \<mapsto> \<lparr>encoding = ''utf-8'', contents = c\<rparr>)"
    and "events w' = events w @
           [Call PyPDF2 pdf_path,
            Print (py ''Successfully extracted '' @ str_nat (length c)
                   @ py '' characters with PyPDF2'')]"
  using assms
  by (auto simp: fallback_try_def Let_def print_def call_def
           split: sum.splits prod.splits option.splits dest!: write_utf8_ok)

lemma primary_try_raises:
  "read_pdf_with_pdfplumber E pdf_path = Inl e \<Longrightarrow>
   primary_try E w = (Inl e, call Pdfplumber pdf_path w)"
  by (simp add: primary_try_def Let_def)

lemma fallback_try_raises:
  "read_pdf_with_pypdf2 E pdf_path = Inl e2 \<Longrightarrow>
   fallback_try E w = (Inl e2, call PyPDF2 pdf_path w)"
  by (simp add: fallback_try_def Let_def)

lemma fallback_try_events:
  "events (snd (fallback_try E w)) =
     events w @ Call PyPDF2 pdf_path #
       (case read_pdf_with_pypdf2 E pdf_path of
          Inl e2 \<Rightarrow> []
        | Inr c \<Rightarrow> [Print (py ''Successfully extracted '' @ str_nat (length c)
                            @ py '' characters with PyPDF2'')])"
proof (cases "read_pdf_with_pypdf2 E pdf_path")
  case (Inl e2)
  then show ?thesis by (simp add: fallback_try_raises call_def)
next
  case (Inr c)
  let ?w = "print (py ''Successfully extracted '' @ str_nat (length c)
                   @ py '' characters with PyPDF2'') (call PyPDF2 pdf_path w)"
  have "snd (fallback_try E w) = snd (write_utf8 E out_path c ?w)"
    using Inr by (simp add: fallback_try_def Let_def split: prod.splits option.splits)
  then show ?thesis
    using Inr by (simp add: write_utf8_events print_def call_def)
qed

text \<open>
  Claim C1.  When the primary strategy \<^verbatim>\<open>read_pdf_with_pdfplumber\<close> raises \<open>e\<close>, the run
  reports that error and calls the fallback strategy next: the first five events of the
  trace are fixed, and the call of \<^verbatim>\<open>read_pdf_with_pypdf2\<close> is the fifth, before any
  report of the fallback's error.  When the fallback strategy raises \<open>e2\<close> as well, the run
  ends with exactly one more event, the report of \<open>e2\<close>, and the files are those it
  started with: nothing was written.
\<close>

theorem fallback_attempted_then_total_failure:
  assumes "read_pdf_with_pdfplumber E pdf_path = Inl e"
  shows "take 5 (events (snd (main E fs0))) =
           [Print (py ''Reading PDF with pdfplumber...''),
            Call Pdfplumber pdf_path,
            Print (py ''Error with pdfplumber: '' @ exn_str e),
            Print (py ''Trying PyPDF2...''),
            Call PyPDF2 pdf_path]
       \<and> (\<forall>e2. read_pdf_with_pypdf2 E pdf_path = Inl e2 \<longrightarrow>
              main E fs0 =
                (Both_failed e e2,
                 \<lparr>events =
                    [Print (py ''Reading PDF with pdfplumber...''),
                     Call Pdfplumber pdf_path,
                     Print (py ''Error with pdfplumber: '' @ exn_str e),
                     Print (py ''Trying PyPDF2...''),
                     Call PyPDF2 pdf_path,
                     Print (py ''Error with PyPDF2: '' @ exn_str e2)],
                  fs = fs0\<rparr>))"
proof (intro conjI allI impI)
  let ?w = "print (py ''Trying PyPDF2...'')
              (print (py ''Error with pdfplumber: '' @ exn_str e)
                 (call Pdfplumber pdf_path
                    (print (py ''Reading PDF with pdfplumber...'') \<lparr>events = [], fs = fs0\<rparr>)))"
  obtain evs where evs: "events (snd (fallback_try E ?w)) = events ?w @ Call PyPDF2 pdf_path # evs"
    using fallback_try_events [of E ?w] by blast
  have "events (snd (main E fs0)) = events ?w @ Call PyPDF2 pdf_path # evs
        \<or> (\<exists>x. events (snd (main E fs0)) = events ?w @ Call PyPDF2 pdf_path # evs @ [x])"
    using evs
    by (auto simp: main_def Let_def primary_try_raises [OF assms] print_def
             split: prod.splits sum.splits)
  then show "take 5 (events (snd (main E fs0))) =
           [Print (py ''Reading PDF with pdfplumber...''),
            Call Pdfplumber pdf_path,
            Print (py ''Error with pdfplumber: '' @ exn_str e),
            Print (py ''Trying PyPDF2...''),
            Call PyPDF2 pdf_path]"
    by (auto simp: print_def call_def)
next
  fix e2 assume "read_pdf_with_pypdf2 E pdf_path = Inl e2"
  then show "main E fs0 =
                (Both_failed e e2,
                 \<lparr>events =
                    [Print (py ''Reading PDF with pdfplumber...''),
                     Call Pdfplumber pdf_path,
                     Print (py ''Error with pdfplumber: '' @ exn_str e),
                     Print (py ''Trying PyPDF2...''),
                     Call PyPDF2 pdf_path,
                     Print (py ''Error with PyPDF2: '' @ exn_str e2)],
                  fs = fs0\<rparr>)"
    by (simp add: main_def Let_def primary_try_raises [OF assms] fallback_try_raises
                  print_def call_def)
qed

theorem fallback_attempted_then_total_failure_witness:
  "read_pdf_with_pdfplumber
     (env_of (Inl (Exn ''PDFSyntaxError'' (py ''No /Root object'')))
             (Inl (Exn ''PdfReadError'' (py ''EOF marker not found'')))) pdf_path
     = Inl (Exn ''PDFSyntaxError'' (py ''No /Root object''))
   \<and> read_pdf_with_pypdf2
         (env_of (Inl (Exn ''PDFSyntaxError'' (py ''No /Root object'')))
                 (Inl (Exn ''PdfReadError'' (py ''EOF marker not found'')))) pdf_path
       = Inl (Exn ''PdfReadError'' (py ''EOF marker not found''))
   \<and> main (env_of (Inl (Exn ''PDFSyntaxError'' (py ''No /Root object'')))
                   (Inl (Exn ''PdfReadError'' (py ''EOF marker not found''))))
          [out_path \<mapsto> \<lparr>encoding = ''utf-8'', contents = py ''old''\<rparr>]
       = (Both_failed (Exn ''PDFSyntaxError'' (py ''No /Root object''))
                      (Exn ''PdfReadError'' (py ''EOF marker not found'')),
          \<lparr>events =
             [Print (py ''Reading PDF with pdfplumber...''),
              Call Pdfplumber pdf_path,
              Print (py ''Error with pdfplumber: No /Root object''),
              Print (py ''Trying PyPDF2...''),
              Call PyPDF2 pdf_path,
              Print (py ''Error with PyPDF2: EOF marker not found'')],
           fs = [out_path \<mapsto> \<lparr>encoding = ''utf-8'', contents = py ''old''\<rparr>]\<rparr>)"
proof -
  let ?e = "Exn ''PDFSyntaxError'' (py ''No /Root object'')"
  let ?e2 = "Exn ''PdfReadError'' (py ''EOF marker not found'')"
  let ?E = "env_of (Inl ?e) (Inl ?e2)"
  have a: "read_pdf_with_pdfplumber ?E pdf_path = Inl ?e"
    by (simp add: read_pdf_with_pdfplumber_def env_of_def)
  have b: "read_pdf_with_pypdf2 ?E pdf_path = Inl ?e2"
    by (simp add: read_pdf_with_pypdf2_def env_of_def)
  from fallback_attempted_then_total_failure [OF a] a b show ?thesis
    by (simp add: py_def)
qed

lemma primary_try_fs:
  "primary_try E w = (Inl e, w') \<Longrightarrow> fs w' = fs w \<or> fs w' = (fs w)(out_path \<mapsto> \<lparr>encoding = ''utf-8'', contents = []\<rparr>)"
  by (auto simp: primary_try_def Let_def print_def call_def write_utf8_def
           split: sum.splits prod.splits option.splits)

lemma main_Saved:
  assumes "main E fs0 = (Saved s c, w)"
  shows "fs w = fs0(out_path \<mapsto> \<lparr>encoding = ''utf-8'', contents = c\<rparr>)"
proof (cases s)
  case Pdfplumber
  with assms obtain w0 where "primary_try E w0 = (Inr c, w)" "fs w0 = fs0"
    by (auto simp: main_def Let_def print_def split: prod.splits sum.splits)
  then show ?thesis using primary_try_Inr(2) by simp
next
  case PyPDF2
  with assms obtain w0 w1 e where
    "primary_try E w0 = (Inl e, w1)" "fs w0 = fs0"
    "fallback_try E (print (py ''Trying PyPDF2...'') (print (py ''Error with pdfplumber: '' @ exn_str e) w1)) = (Inr c, w)"
    by (auto simp: main_def Let_def print_def split: prod.splits sum.splits)
  then show ?thesis
    using fallback_try_Inr(2) [of E _ c w] primary_try_fs [of E w0 e w1]
    by (auto simp: print_def)
qed


lemma primary_try_fst:
  "primary_try E w = (r, w') \<Longrightarrow>
   r = saved_or_raised E (read_pdf_with_pdfplumber E pdf_path)"
  by (auto simp: primary_try_def write_utf8_def saved_or_raised_def Let_def
           split: sum.splits option.splits)

lemma fallback_try_fst:
  "fallback_try E w = (r, w') \<Longrightarrow>
   r = saved_or_raised E (read_pdf_with_pypdf2 E pdf_path)"
  by (auto simp: fallback_try_def write_utf8_def saved_or_raised_def Let_def
           split: sum.splits option.splits)

lemma main_fst:
  "fst (main E fs0) =
     (case saved_or_raised E (read_pdf_with_pdfplumber E pdf_path) of
        Inr c \<Rightarrow> Saved Pdfplumber c
      | Inl e \<Rightarrow>
          (case saved_or_raised E (read_pdf_with_pypdf2 E pdf_path) of
             Inr c \<Rightarrow> Saved PyPDF2 c
           | Inl e2 \<Rightarrow> Both_failed e e2))"
  by (auto simp: main_def Let_def split: prod.splits sum.splits
           dest!: primary_try_fst fallback_try_fst)

lemma main_fst_indep: "fst (main E fs1) = fst (main E fs0)"
  by (simp only: main_fst)

text \<open>
  Claim C2.  For a PDF that opens and has one page with extractable (non-empty) text \<open>T\<close>,
  \<^verbatim>\<open>read_pdf_with_pdfplumber\<close> returns \<open>T\<close> followed by a newline.  Whenever a run of the
  script succeeds, the output file holds exactly the string the strategy returned
  (\<open>content\<close>); and the run does succeed with that string when the output file can be
  opened and the text encoded.
\<close>

theorem single_page_text_returned_and_saved:
  assumes "pdfplumber_open E pdf_path = Inr [Returns (Some T)]"
    and "T \<noteq> []"
  shows "read_pdf_with_pdfplumber E pdf_path = Inr (T @ [NL])
       \<and> (\<forall>s c w. main E fs0 = (Saved s c, w) \<longrightarrow>
             fs w out_path = Some \<lparr>encoding = ''utf-8'', contents = c\<rparr>)
       \<and> (open_w_error E out_path = None \<and> encode_error E ''utf-8'' (T @ [NL]) = None \<longrightarrow>
             fst (main E fs0) = Saved Pdfplumber (T @ [NL]))"
proof -
  have r: "read_pdf_with_pdfplumber E pdf_path = Inr (T @ [NL])"
    using assms by (simp add: read_pdf_with_pdfplumber_def)
  have "fs w out_path = Some \<lparr>encoding = ''utf-8'', contents = c\<rparr>"
    if "main E fs0 = (Saved s c, w)" for s c w
    using main_Saved [OF that] by simp
  moreover have "fst (main E fs0) = Saved Pdfplumber (T @ [NL])"
    if "open_w_error E out_path = None \<and> encode_error E ''utf-8'' (T @ [NL]) = None"
    using that r by (simp add: main_fst saved_or_raised_def)
  ultimately show ?thesis
    using r by blast
qed

theorem single_page_text_returned_and_saved_witness:
  "pdfplumber_open (env_of (Inr [Returns (Some (py ''Hi''))]) (Inr [])) pdf_path
     = Inr [Returns (Some (py ''Hi''))]
   \<and> py ''Hi'' \<noteq> []
   \<and> read_pdf_with_pdfplumber (env_of (Inr [Returns (Some (py ''Hi''))]) (Inr [])) pdf_path
       = Inr (py ''Hi'' @ [NL])
   \<and> fst (main (env_of (Inr [Returns (Some (py ''Hi''))]) (Inr [])) Map.empty)
       = Saved Pdfplumber (py ''Hi'' @ [NL])
   \<and> fs (snd (main (env_of (Inr [Returns (Some (py ''Hi''))]) (Inr [])) Map.empty)) out_path
       = Some \<lparr>encoding = ''utf-8'', contents = py ''Hi'' @ [NL]\<rparr>"
proof -
  let ?E = "env_of (Inr [Returns (Some (py ''Hi''))]) (Inr [])"
  have a: "pdfplumber_open ?E pdf_path = Inr [Returns (Some (py ''Hi''))]"
    by (simp add: env_of_def)
  have b: "py ''Hi'' \<noteq> []"
    by (simp add: py_def)
  have c: "open_w_error ?E out_path = None \<and> encode_error ?E ''utf-8'' (py ''Hi'' @ [NL]) = None"
    by (simp add: env_of_def)
  note t = single_page_text_returned_and_saved [OF a b, of Map.empty]
  from t c have m: "fst (main ?E Map.empty) = Saved Pdfplumber (py ''Hi'' @ [NL])"
    by blast
  then have "main ?E Map.empty = (Saved Pdfplumber (py ''Hi'' @ [NL]), snd (main ?E Map.empty))"
    by (metis prod.collapse)
  with t have "fs (snd (main ?E Map.empty)) out_path
                 = Some \<lparr>encoding = ''utf-8'', contents = py ''Hi'' @ [NL]\<rparr>"
    by blast
  with t a b m show ?thesis
    by blast
qed

text \<open>
  Claim C6.  A run that succeeds leaves in the output file the extracted text and nothing
  else, under the codec \<^verbatim>\<open>utf-8\<close>: the file is replaced, not appended to, and every other
  file is as before.  Started on any other files \<open>fs1\<close>, the run succeeds with the same
  text and leaves the same output file, so the result does not depend on what the file
  held before.
\<close>

theorem saved_file_independent_of_prior_state:
  assumes "main E fs0 = (Saved s c, w)"
  shows "fs w = fs0(out_path \<mapsto> \<lparr>encoding = ''utf-8'', contents = c\<rparr>)
       \<and> fst (main E fs1) = Saved s c
       \<and> fs (snd (main E fs1)) out_path = fs w out_path"
proof -
  have a: "fs w = fs0(out_path \<mapsto> \<lparr>encoding = ''utf-8'', contents = c\<rparr>)"
    using main_Saved [OF assms] .
  have b: "fst (main E fs1) = Saved s c"
    using main_fst_indep [of E fs1 fs0] assms by simp
  then have "main E fs1 = (Saved s c, snd (main E fs1))"
    by (metis prod.collapse)
  then have "fs (snd (main E fs1)) = fs1(out_path \<mapsto> \<lparr>encoding = ''utf-8'', contents = c\<rparr>)"
    by (rule main_Saved)
  with a b show ?thesis by simp
qed

lemma main_single_page_run:
  "main (env_of (Inr [Returns (Some (py ''Hi''))]) (Inr []))
        [out_path \<mapsto> \<lparr>encoding = ''latin-1'', contents = py ''old text''\<rparr>]
     = (Saved Pdfplumber (py ''Hi'' @ [NL]),
        \<lparr>events =
           [Print (py ''Reading PDF with pdfplumber...''),
            Call Pdfplumber pdf_path,
            Print (py ''Successfully extracted 3 characters''),
            Print (py ''Content saved to asi_arch_paper.txt''),
            Print (NL # py ''--- PREVIEW (first 2000 chars) ---''),
            Print (py ''Hi'' @ [NL])],
         fs = [out_path \<mapsto> \<lparr>encoding = ''utf-8'', contents = py ''Hi'' @ [NL]\<rparr>]\<rparr>)"
  by (simp add: main_def primary_try_def write_utf8_def read_pdf_with_pdfplumber_def
                env_of_def print_def call_def Let_def py_def NL_def str_nat.simps)

theorem saved_file_independent_of_prior_state_witness:
  "main (env_of (Inr [Returns (Some (py ''Hi''))]) (Inr []))
        [out_path \<mapsto> \<lparr>encoding = ''latin-1'', contents = py ''old text''\<rparr>]
     = (Saved Pdfplumber (py ''Hi'' @ [NL]),
        \<lparr>events =
           [Print (py ''Reading PDF with pdfplumber...''),
            Call Pdfplumber pdf_path,
            Print (py ''Successfully extracted 3 characters''),
            Print (py ''Content saved to asi_arch_paper.txt''),
            Print (NL # py ''--- PREVIEW (first 2000 chars) ---''),
            Print (py ''Hi'' @ [NL])],
         fs = [out_path \<mapsto> \<lparr>encoding = ''utf-8'', contents = py ''Hi'' @ [NL]\<rparr>]\<rparr>)
   \<and> fst (main (env_of (Inr [Returns (Some (py ''Hi''))]) (Inr [])) Map.empty)
       = Saved Pdfplumber (py ''Hi'' @ [NL])
   \<and> fs (snd (main (env_of (Inr [Returns (Some (py ''Hi''))]) (Inr [])) Map.empty)) out_path
       = Some \<lparr>encoding = ''utf-8'', contents = py ''Hi'' @ [NL]\<rparr>"
  using saved_file_independent_of_prior_state [OF main_single_page_run, of Map.empty]
        main_single_page_run
  by simp

text \<open>
  The preview of a run in which the primary strategy succeeds: the last thing printed is
  \<^verbatim>\<open>content[:2000]\<close>, at most 2000 characters, the first 2000 characters of the output
  file (the whole file when it is shorter).
\<close>

lemma stdout_append: "stdout (xs @ ys) = stdout xs @ stdout ys"
  by (induction xs rule: stdout.induct) auto

lemma primary_success_preview:
  assumes "main E fs0 = (Saved Pdfplumber c, w)"
  shows "fs w out_path = Some \<lparr>encoding = ''utf-8'', contents = c\<rparr>"
    and "last (stdout (events w)) = take 2000 c"
    and "length (last (stdout (events w))) \<le> 2000"
    and "length c \<le> 2000 \<Longrightarrow> last (stdout (events w)) = c"
proof -
  from assms obtain w0 where p: "primary_try E w0 = (Inr c, w)"
    by (auto simp: main_def Let_def split: prod.splits sum.splits)
  show "fs w out_path = Some \<lparr>encoding = ''utf-8'', contents = c\<rparr>"
    using main_Saved [OF assms] by simp
  show l: "last (stdout (events w)) = take 2000 c"
    using primary_try_Inr(3) [OF p] by (simp add: stdout_append)
  show "length (last (stdout (events w))) \<le> 2000"
    unfolding l by simp
  show "length c \<le> 2000 \<Longrightarrow> last (stdout (events w)) = c"
    unfolding l by simp
qed

text \<open>
  Claim C4.  The claim asks for the saved text and a preview on every successful run,
  \<^emph>\<open>whether the primary or the fallback strategy succeeds\<close>.  The primary path does both
  (\<open>primary_success_preview\<close>).  The fallback path (lines 44--47) saves the text and prints
  neither \<^verbatim>\<open>Content saved ...\<close> nor the preview: in the run below pdfplumber raises, PyPDF2
  extracts \<^verbatim>\<open>"x\n"\<close>, the file is written, and the last line printed is the count of
  characters.
\<close>

theorem fallback_success_prints_no_preview:
  "main (env_of (Inl (Exn ''PDFSyntaxError'' (py ''No /Root object'')))
                (Inr [Returns (Some (py ''x''))])) Map.empty
     = (Saved PyPDF2 (py ''x'' @ [NL]),
        \<lparr>events =
           [Print (py ''Reading PDF with pdfplumber...''),
            Call Pdfplumber pdf_path,
            Print (py ''Error with pdfplumber: No /Root object''),
            Print (py ''Trying PyPDF2...''),
            Call PyPDF2 pdf_path,
            Print (py ''Successfully extracted 2 characters with PyPDF2'')],
         fs = [out_path \<mapsto> \<lparr>encoding = ''utf-8'', contents = py ''x'' @ [NL]\<rparr>]\<rparr>)
   \<and> take 2000 (py ''x'' @ [NL])
       \<notin> set (stdout
           [Print (py ''Reading PDF with pdfplumber...''),
            Call Pdfplumber pdf_path,
            Print (py ''Error with pdfplumber: No /Root object''),
            Print (py ''Trying PyPDF2...''),
            Call PyPDF2 pdf_path,
            Print (py ''Successfully extracted 2 characters with PyPDF2'')])"
  by (simp add: main_def primary_try_def fallback_try_def write_utf8_def
                read_pdf_with_pdfplumber_def read_pdf_with_pypdf2_def
                env_of_def print_def call_def Let_def py_def NL_def str_nat.simps)


section \<open>The request handler\<close>

lemma send_header_version [simp]: "request_version (send_header k v h) = request_version h"
  by (simp add: send_header_def Let_def)

lemma send_header_wfile [simp]: "wfile (send_header k v h) = wfile h"
  by (simp add: send_header_def Let_def)

lemma send_header_buffer:
  "headers_buffer (send_header k v h) =
     (if request_version h \<noteq> ''HTTP/0.9''
      then headers_buffer h @ [k @ '': '' @ v @ CRLF] else headers_buffer h)"
  by (simp add: send_header_def Let_def)

lemma fold_send_header:
  "request_version (fold (\<lambda>(k, v). send_header k v) hdrs h) = request_version h
   \<and> wfile (fold (\<lambda>(k, v). send_header k v) hdrs h) = wfile h
   \<and> headers_buffer (fold (\<lambda>(k, v). send_header k v) hdrs h) =
       (if request_version h \<noteq> ''HTTP/0.9''
        then headers_buffer h @ map (\<lambda>(k, v). k @ '': '' @ v @ CRLF) hdrs
        else headers_buffer h)"
  by (induction hdrs arbitrary: h) (auto simp: send_header_buffer)

lemma end_headers_wfile:
  "request_version h \<noteq> ''HTTP/0.9'' \<Longrightarrow>
   wfile (end_headers h) = wfile h @ concat (headers_buffer h) @ cors_headers @ CRLF"
  by (simp add: end_headers_def Let_def send_header_buffer base_end_headers_def
                flush_headers_def cors_headers_def)

lemma end_headers_buffer:
  "request_version h \<noteq> ''HTTP/0.9'' \<Longrightarrow> headers_buffer (end_headers h) = []"
  by (simp add: end_headers_def Let_def base_end_headers_def flush_headers_def)

lemma end_headers_09:
  "request_version h = ''HTTP/0.9'' \<Longrightarrow> end_headers h = h"
  by (simp add: end_headers_def send_header_def base_end_headers_def Let_def lower_def)

lemma fold_send_header_09:
  "request_version h = ''HTTP/0.9'' \<Longrightarrow>
   wfile (fold (\<lambda>(k, v). send_header k v) hdrs h) = wfile h
   \<and> headers_buffer (fold (\<lambda>(k, v). send_header k v) hdrs h) = headers_buffer h
   \<and> request_version (fold (\<lambda>(k, v). send_header k v) hdrs h) = ''HTTP/0.9''"
  using fold_send_header [of hdrs h] by simp

text \<open>
  Claim C7, as amended.  While the handler's attribute \<^verbatim>\<open>request_version\<close> is not
  \<^verbatim>\<open>HTTP/0.9\<close>, every response carries the three CORS headers: \<^verbatim>\<open>end_headers\<close> writes the
  headers buffered so far, then the three lines, then the blank line that ends the header
  section, whatever the status code, the other headers and the body are.  While the
  attribute is \<^verbatim>\<open>HTTP/0.9\<close>, \<^verbatim>\<open>send_response_only\<close>, \<^verbatim>\<open>send_header\<close> and the inherited
  \<^verbatim>\<open>end_headers\<close> write nothing: the override adds no header and the response is the body
  alone.
\<close>

theorem cors_headers_before_blank_line:
  "(request_version h \<noteq> ''HTTP/0.9'' \<longrightarrow>
      wfile (end_headers h) = wfile h @ concat (headers_buffer h) @ cors_headers @ CRLF
      \<and> headers_buffer (end_headers h) = []
      \<and> wfile (respond pv code msg hdrs body h) =
          wfile h @ concat (headers_buffer h)
          @ pv @ '' '' @ map char_of (str_nat code) @ '' '' @ msg @ CRLF
          @ concat (map (\<lambda>(k, v). k @ '': '' @ v @ CRLF) hdrs)
          @ cors_headers @ CRLF @ body)
   \<and> (request_version h = ''HTTP/0.9'' \<longrightarrow>
        wfile (end_headers h) = wfile h
        \<and> headers_buffer (end_headers h) = headers_buffer h
        \<and> wfile (respond pv code msg hdrs body h) = wfile h @ body
        \<and> headers_buffer (respond pv code msg hdrs body h) = headers_buffer h)"
proof (intro conjI impI)
  let ?h1 = "send_response_only pv code msg h"
  let ?h2 = "fold (\<lambda>(k, v). send_header k v) hdrs ?h1"
  assume v: "request_version h \<noteq> ''HTTP/0.9''"
  have v1: "request_version ?h1 = request_version h"
    by (simp add: send_response_only_def)
  have v2: "request_version ?h2 \<noteq> ''HTTP/0.9''"
    using v v1 fold_send_header [of hdrs ?h1] by simp
  have b2: "headers_buffer ?h2 =
              headers_buffer h
              @ [pv @ '' '' @ map char_of (str_nat code) @ '' '' @ msg @ CRLF]
              @ map (\<lambda>(k, v). k @ '': '' @ v @ CRLF) hdrs"
    using v fold_send_header [of hdrs ?h1] by (simp add: send_response_only_def)
  have w2: "wfile ?h2 = wfile h"
    using fold_send_header [of hdrs ?h1] by (simp add: send_response_only_def)
  have r: "wfile (respond pv code msg hdrs body h) = wfile (end_headers ?h2) @ body"
    by (simp add: respond_def Let_def)
  show "wfile (end_headers h) = wfile h @ concat (headers_buffer h) @ cors_headers @ CRLF"
    using end_headers_wfile [OF v] .
  show "headers_buffer (end_headers h) = []"
    using end_headers_buffer [OF v] .
  show "wfile (respond pv code msg hdrs body h) =
          wfile h @ concat (headers_buffer h)
          @ pv @ '' '' @ map char_of (str_nat code) @ '' '' @ msg @ CRLF
          @ concat (map (\<lambda>(k, v). k @ '': '' @ v @ CRLF) hdrs)
          @ cors_headers @ CRLF @ body"
    using r end_headers_wfile [OF v2] b2 w2 by simp
next
  let ?h1 = "send_response_only pv code msg h"
  let ?h2 = "fold (\<lambda>(k, v). send_header k v) hdrs ?h1"
  assume v: "request_version h = ''HTTP/0.9''"
  have h1: "?h1 = h"
    using v by (simp add: send_response_only_def)
  have f: "wfile ?h2 = wfile h \<and> headers_buffer ?h2 = headers_buffer h
           \<and> request_version ?h2 = ''HTTP/0.9''"
    using fold_send_header_09 [OF v, of hdrs] h1 by simp
  then have e: "end_headers ?h2 = ?h2"
    using end_headers_09 by blast
  show "wfile (end_headers h) = wfile h"
    using end_headers_09 [OF v] by simp
  show "headers_buffer (end_headers h) = headers_buffer h"
    using end_headers_09 [OF v] by simp
  show "wfile (respond pv code msg hdrs body h) = wfile h @ body"
    using e f by (simp add: respond_def Let_def)
  show "headers_buffer (respond pv code msg hdrs body h) = headers_buffer h"
    using e f by (simp add: respond_def Let_def)
qed

lemma str_nat_200: "map char_of (str_nat 200) = ''200''"
  by code_simp

lemma str_nat_404: "map char_of (str_nat 404) = ''404''"
  by code_simp

theorem cors_headers_before_blank_line_witness:
  "request_version \<lparr>request_version = ''HTTP/1.1'', headers_buffer = [], wfile = [],
                    close_connection = True\<rparr> \<noteq> ''HTTP/0.9''
   \<and> wfile (respond ''HTTP/1.0'' 200 ''OK'' [(''Content-type'', ''text/plain'')] ''hello''
              \<lparr>request_version = ''HTTP/1.1'', headers_buffer = [], wfile = [],
               close_connection = True\<rparr>)
       = ''HTTP/1.0 200 OK'' @ CRLF @ ''Content-type: text/plain'' @ CRLF
         @ ''Access-Control-Allow-Origin: *'' @ CRLF
         @ ''Access-Control-Allow-Methods: GET, POST, OPTIONS'' @ CRLF
         @ ''Access-Control-Allow-Headers: *'' @ CRLF
         @ CRLF @ ''hello''
   \<and> wfile (respond ''HTTP/1.0'' 404 ''File not found'' [(''Connection'', ''close'')] ''gone''
              \<lparr>request_version = ''HTTP/1.1'', headers_buffer = [], wfile = [],
               close_connection = True\<rparr>)
       = ''HTTP/1.0 404 File not found'' @ CRLF @ ''Connection: close'' @ CRLF
         @ ''Access-Control-Allow-Origin: *'' @ CRLF
         @ ''Access-Control-Allow-Methods: GET, POST, OPTIONS'' @ CRLF
         @ ''Access-Control-Allow-Headers: *'' @ CRLF
         @ CRLF @ ''gone''
   \<and> request_version \<lparr>request_version = ''HTTP/0.9'', headers_buffer = [], wfile = [],
                      close_connection = True\<rparr> = ''HTTP/0.9''
   \<and> wfile (respond ''HTTP/1.0'' 404 ''File not found'' [(''Connection'', ''close'')] ''gone''
              \<lparr>request_version = ''HTTP/0.9'', headers_buffer = [], wfile = [],
               close_connection = True\<rparr>)
       = ''gone''"
proof -
  let ?h = "\<lparr>request_version = ''HTTP/1.1'', headers_buffer = [], wfile = [],
             close_connection = True\<rparr>"
  let ?g = "\<lparr>request_version = ''HTTP/0.9'', headers_buffer = [], wfile = [],
              close_connection = True\<rparr>"
  have a: "request_version ?h \<noteq> ''HTTP/0.9''"
    by simp
  have b: "request_version ?g = ''HTTP/0.9''"
    by simp
  have r200:
    "wfile (respond ''HTTP/1.0'' 200 ''OK'' [(''Content-type'', ''text/plain'')] ''hello'' ?h)
       = ''HTTP/1.0 200 OK'' @ CRLF @ ''Content-type: text/plain'' @ CRLF
         @ ''Access-Control-Allow-Origin: *'' @ CRLF
         @ ''Access-Control-Allow-Methods: GET, POST, OPTIONS'' @ CRLF
         @ ''Access-Control-Allow-Headers: *'' @ CRLF
         @ CRLF @ ''hello''"
    using cors_headers_before_blank_line [of ?h "''HTTP/1.0''" 200 "''OK''"
            "[(''Content-type'', ''text/plain'')]" "''hello''"]
    by (simp add: str_nat_200 cors_headers_def)
  have r404:
    "wfile (respond ''HTTP/1.0'' 404 ''File not found'' [(''Connection'', ''close'')] ''gone'' ?h)
       = ''HTTP/1.0 404 File not found'' @ CRLF @ ''Connection: close'' @ CRLF
         @ ''Access-Control-Allow-Origin: *'' @ CRLF
         @ ''Access-Control-Allow-Methods: GET, POST, OPTIONS'' @ CRLF
         @ ''Access-Control-Allow-Headers: *'' @ CRLF
         @ CRLF @ ''gone''"
    using cors_headers_before_blank_line [of ?h "''HTTP/1.0''" 404 "''File not found''"
            "[(''Connection'', ''close'')]" "''gone''"]
    by (simp add: str_nat_404 cors_headers_def)
  have r09:
    "wfile (respond ''HTTP/1.0'' 404 ''File not found'' [(''Connection'', ''close'')] ''gone'' ?g)
       = ''gone''"
    using cors_headers_before_blank_line [of ?g "''HTTP/1.0''" 404 "''File not found''"
            "[(''Connection'', ''close'')]" "''gone''"]
    by simp
  from a r200 r404 b r09 show ?thesis
    by (intro conjI)
qed

text \<open>
  Claim C7 as stated, for \<^emph>\<open>every\<close> response, fails where the attribute is \<^verbatim>\<open>HTTP/0.9\<close>,
  the library's default, which it keeps for example for a request line without a version
  (\<^verbatim>\<open>GET /a.txt\<close>): the response to it is the body alone.
\<close>

theorem http09_response_without_cors:
  "respond ''HTTP/1.0'' 200 ''OK'' [(''Content-type'', ''text/plain'')] ''hello''
     \<lparr>request_version = ''HTTP/0.9'', headers_buffer = [], wfile = [], close_connection = True\<rparr>
   = \<lparr>request_version = ''HTTP/0.9'', headers_buffer = [], wfile = ''hello'',
      close_connection = True\<rparr>"
  by (simp add: respond_def send_response_only_def send_header_def end_headers_def
                base_end_headers_def Let_def lower_def)



section \<open>The server\<close>

lemma str_nat_PORT: "str_nat PORT = py ''8000''"
  by (simp add: PORT_def str_nat.simps py_def)

lemma TCPServer_bound:
  "bind_error os [] ('''', PORT) = None \<Longrightarrow>
   TCPServer os ('''', PORT) MyHTTPRequestHandler =
     Inr \<lparr>server_address = getsockname os ('''', PORT),
          RequestHandlerClass = MyHTTPRequestHandler,
          allow_reuse_address = False, allow_reuse_port = False, request_queue_size = 5,
          sock = \<lparr>sockopts = [], bound_to = Some ('''', PORT), backlog = Some 5,
                  closed = False\<rparr>,
          shutdown_request_flag = False, is_shut_down = False, served = []\<rparr>"
  by (simp add: TCPServer_def server_bind_def server_activate_def Let_def)



lemma log_lines_append: "log_lines client (xs @ ys) = log_lines client xs @ log_lines client ys"
  by (induction xs rule: sent_bytes.induct) simp_all


lemma log_lines_Bytes: "log_lines client (map Byte bs) = []"
  by (induction bs) simp_all





lemma fold_say: "fold say ls p = p\<lparr>console := console p @ ls\<rparr>"
  by (induction ls arbitrary: p) (simp_all add: say_def)



text \<open>
  The interrupt outside the loop.  When it arrives in \<^verbatim>\<open>serve_forever\<close> before the \<^verbatim>\<open>try\<close>
  statement of that method, \<^verbatim>\<open>start_server\<close> catches it and prints, but the event was
  cleared and never set: \<^verbatim>\<open>shutdown\<close> does not return and the listening socket stays open.
  When it arrives in the \<^verbatim>\<open>with\<close> block before the \<^verbatim>\<open>try\<close> statement of \<^verbatim>\<open>start_server\<close>,
  the socket is closed and \<^verbatim>\<open>KeyboardInterrupt\<close> leaves \<^verbatim>\<open>start_server\<close>.
\<close>

lemma start_server_sigint_before_try:
  assumes "bind_error os [] ('''', PORT) = None"
  shows "start_server os H (In_serve_forever Before_try) p =
           (Blocked,
            p\<lparr>console := console p @ banner @ [NL # 0x1F6D1 # py '' Server stopped'']\<rparr>,
            Some \<lparr>server_address = getsockname os ('''', PORT),
                  RequestHandlerClass = MyHTTPRequestHandler,
                  allow_reuse_address = False, allow_reuse_port = False,
                  request_queue_size = 5,
                  sock = \<lparr>sockopts = [], bound_to = Some ('''', PORT), backlog = Some 5,
                          closed = False\<rparr>,
                  shutdown_request_flag = False, is_shut_down = False, served = []\<rparr>)"
  by (simp add: start_server_def TCPServer_bound [OF assms] serve_forever_def
                fold_say say_def Let_def shutdown_def)

lemma start_server_sigint_in_banner:
  assumes "bind_error os [] ('''', PORT) = None"
  shows "start_server os H (In_banner n) p =
           (Raised KeyboardInterrupt, p\<lparr>console := console p @ take n banner\<rparr>,
            Some \<lparr>server_address = getsockname os ('''', PORT),
                  RequestHandlerClass = MyHTTPRequestHandler,
                  allow_reuse_address = False, allow_reuse_port = False,
                  request_queue_size = 5,
                  sock = \<lparr>sockopts = [], bound_to = Some ('''', PORT), backlog = Some 5,
                          closed = True\<rparr>,
                  shutdown_request_flag = False, is_shut_down = False, served = []\<rparr>)"
  by (simp add: start_server_def TCPServer_bound [OF assms] fold_say server_close_def)









end
